theory Spec2Isabelle
  imports Complex_Main "HOL-Library.AList"
begin

section \<open>Tabular-data ingestion, preprocessing and method recommendation\<close>

text \<open>
  A shallow embedding of the data-analysis core of the paper-writing front end:
  the file parser and normalisation pass, the variable analyser, the data-type
  detector, the preprocessing pipeline (missing values, outliers, standardisation)
  and the method recommender. Every definition follows the TypeScript function of
  the same name.
\<close>

subsection \<open>JavaScript numbers\<close>

text \<open>
  A JavaScript number is an IEEE-754 double. The model keeps the special values
  \<open>NaN\<close>, \<open>+Infinity\<close> and \<open>-Infinity\<close> and the rules by which arithmetic
  produces and propagates them (division by zero, \<open>Infinity - Infinity\<close>, comparisons
  with \<open>NaN\<close>), and takes the finite values as real numbers with exact arithmetic:
  rounding, overflow of finite results and the sign of zero are not modelled (the one
  zero stands for \<open>+0\<close>).
\<close>

datatype jsnum = NaN | NInf | Fin real | PInf

fun js_neg :: "jsnum \<Rightarrow> jsnum" where
  "js_neg NaN = NaN"
| "js_neg NInf = PInf"
| "js_neg PInf = NInf"
| "js_neg (Fin a) = Fin (- a)"

fun js_plus :: "jsnum \<Rightarrow> jsnum \<Rightarrow> jsnum" where
  "js_plus (Fin a) (Fin b) = Fin (a + b)"
| "js_plus NaN _ = NaN"
| "js_plus _ NaN = NaN"
| "js_plus PInf NInf = NaN"
| "js_plus NInf PInf = NaN"
| "js_plus PInf _ = PInf"
| "js_plus _ PInf = PInf"
| "js_plus NInf _ = NInf"
| "js_plus _ NInf = NInf"

definition js_minus :: "jsnum \<Rightarrow> jsnum \<Rightarrow> jsnum" where
  "js_minus a b = js_plus a (js_neg b)"

fun js_negative :: "jsnum \<Rightarrow> bool" where
  "js_negative NInf = True"
| "js_negative (Fin a) = (a < 0)"
| "js_negative _ = False"

fun js_times :: "jsnum \<Rightarrow> jsnum \<Rightarrow> jsnum" where
  "js_times (Fin a) (Fin b) = Fin (a * b)"
| "js_times NaN _ = NaN"
| "js_times _ NaN = NaN"
| "js_times x y =
     (if x = Fin 0 \<or> y = Fin 0 then NaN
      else if js_negative x = js_negative y then PInf else NInf)"

fun js_divide :: "jsnum \<Rightarrow> jsnum \<Rightarrow> jsnum" where
  "js_divide (Fin a) (Fin b) =
     (if b = 0 then (if a = 0 then NaN else if 0 < a then PInf else NInf)
      else Fin (a / b))"
| "js_divide NaN _ = NaN"
| "js_divide _ NaN = NaN"
| "js_divide (Fin a) _ = Fin 0"
| "js_divide PInf (Fin b) = (if b < 0 then NInf else PInf)"
| "js_divide NInf (Fin b) = (if b < 0 then PInf else NInf)"
| "js_divide _ _ = NaN"

fun js_less :: "jsnum \<Rightarrow> jsnum \<Rightarrow> bool" where
  "js_less (Fin a) (Fin b) = (a < b)"
| "js_less NaN _ = False"
| "js_less _ NaN = False"
| "js_less NInf NInf = False"
| "js_less NInf _ = True"
| "js_less _ NInf = False"
| "js_less PInf _ = False"
| "js_less _ PInf = True"

definition js_greater :: "jsnum \<Rightarrow> jsnum \<Rightarrow> bool" where
  "js_greater a b = js_less b a"

fun math_abs :: "jsnum \<Rightarrow> jsnum" where
  "math_abs NaN = NaN"
| "math_abs NInf = PInf"
| "math_abs PInf = PInf"
| "math_abs (Fin a) = Fin \<bar>a\<bar>"

fun math_sqrt :: "jsnum \<Rightarrow> jsnum" where
  "math_sqrt NaN = NaN"
| "math_sqrt NInf = NaN"
| "math_sqrt PInf = PInf"
| "math_sqrt (Fin a) = (if a < 0 then NaN else Fin (sqrt a))"

text \<open>\<open>Math.pow(x, 2)\<close>, the only use of \<open>Math.pow\<close> in the source.\<close>

fun math_pow2 :: "jsnum \<Rightarrow> jsnum" where
  "math_pow2 NaN = NaN"
| "math_pow2 NInf = PInf"
| "math_pow2 PInf = PInf"
| "math_pow2 (Fin a) = Fin (a * a)"

text \<open>\<open>Math.min(...xs)\<close> and \<open>Math.max(...xs)\<close> on numbers: \<open>+Infinity\<close> and
  \<open>-Infinity\<close> on no argument, \<open>NaN\<close> as soon as one argument is \<open>NaN\<close>.\<close>

definition js_min2 :: "jsnum \<Rightarrow> jsnum \<Rightarrow> jsnum" where
  "js_min2 a b = (if a = NaN \<or> b = NaN then NaN else if js_less b a then b else a)"

definition js_max2 :: "jsnum \<Rightarrow> jsnum \<Rightarrow> jsnum" where
  "js_max2 a b = (if a = NaN \<or> b = NaN then NaN else if js_less a b then b else a)"

definition math_min :: "jsnum list \<Rightarrow> jsnum" where
  "math_min xs = foldl js_min2 PInf xs"

definition math_max :: "jsnum list \<Rightarrow> jsnum" where
  "math_max xs = foldl js_max2 NInf xs"

subsection \<open>Method recommender\<close>

text \<open>
  \<open>MethodRecommendation\<close>: the five records the recommender can push differ in every
  field; each is a literal of the source. The model keeps the two fields the rules are
  about, \<open>name\<close> and \<open>confidence\<close>, and names the five literal names by a constructor:
  the fixed-effects model, the random-effects model, ordinary least squares (OLS),
  two-stage least squares (2SLS) and time-series analysis. The remaining fields
  (description, advantages, considerations, assumptions, testMethods, formula,
  suitableConditions, suitableScenarios) are fixed texts that go with the name.
\<close>

datatype method_name = FixedEffects | RandomEffects | OLS | TwoSLS | TimeSeriesAnalysis

record MethodRecommendation =
  name :: method_name
  confidence :: jsnum

record DataInfo =
  dataType :: string
  hasInstrumental :: bool
  hasMediator :: bool
  hasModerator :: bool
  hasGroupVariable :: bool
  hasTimeVariable :: bool
  hasEntityVariable :: bool
  sampleSize :: jsnum

definition recommendMethodsByDataStructure :: "DataInfo \<Rightarrow> MethodRecommendation list" where
  "recommendMethodsByDataStructure dataInfo =
     (let recommendations = [];
          recommendations =
            (if dataType dataInfo = ''panel''
             then recommendations
                  @ [\<lparr>name = FixedEffects, confidence = Fin 0.9\<rparr>]
                  @ [\<lparr>name = RandomEffects, confidence = Fin 0.85\<rparr>]
             else recommendations);
          recommendations =
            (if dataType dataInfo = ''cross_section''
             then (let recommendations =
                         recommendations @ [\<lparr>name = OLS, confidence = Fin 0.8\<rparr>]
                   in if hasInstrumental dataInfo
                      then recommendations @ [\<lparr>name = TwoSLS, confidence = Fin 0.85\<rparr>]
                      else recommendations)
             else recommendations);
          recommendations =
            (if dataType dataInfo = ''time_series''
             then recommendations @ [\<lparr>name = TimeSeriesAnalysis, confidence = Fin 0.85\<rparr>]
             else recommendations)
      in recommendations)"

subsection \<open>JavaScript values, coercions and objects\<close>

text \<open>
  A cell of a table is \<open>undefined\<close>, \<open>null\<close>, a boolean, a number, a string or a
  \<open>Date\<close> object (given by its time value, \<open>NaN\<close> for an invalid date). Strings are
  lists of 8-bit characters, read as the code units below 256.
\<close>

datatype jsval = JUndef | JNull | JBool bool | JNum jsnum | JStr string | JDate jsnum

text \<open>
  An object with string keys (a row, a summary) is an association list in the order of
  \<open>Object.keys\<close>; a well-formed object has distinct keys.
\<close>

type_synonym 'v obj = "(string \<times> 'v) list"
type_synonym row = "jsval obj"

text \<open>
  The parts of the JavaScript runtime and of the spreadsheet library the source calls but
  does not define are parameters: \<open>strToNum\<close> is the conversion of a string to a number
  (\<open>Number(s)\<close>, \<open>NaN\<close> when the string is not a numeric literal), \<open>dateParse\<close> is
  \<open>Date.parse\<close> on a string (\<open>NaN\<close> when it is not a date), \<open>numToStr\<close> and
  \<open>dateToStr\<close> are the string conversions of a number and of a \<open>Date\<close> with the
  given time value, and \<open>xlsxSheetToJson\<close> reads the first sheet of a workbook into row
  objects (\<open>XLSX.read\<close> followed by \<open>XLSX.utils.sheet_to_json\<close>) or throws an error
  with a message.
\<close>

record js_env =
  strToNum :: "string \<Rightarrow> jsnum"
  dateParse :: "string \<Rightarrow> jsnum"
  numToStr :: "jsnum \<Rightarrow> string"
  dateToStr :: "jsnum \<Rightarrow> string"
  xlsxSheetToJson :: "string \<Rightarrow> string + row list"

fun to_number :: "js_env \<Rightarrow> jsval \<Rightarrow> jsnum" where
  "to_number env JUndef = NaN"
| "to_number env JNull = Fin 0"
| "to_number env (JBool b) = (if b then Fin 1 else Fin 0)"
| "to_number env (JNum n) = n"
| "to_number env (JStr s) = strToNum env s"
| "to_number env (JDate t) = t"

fun to_string :: "js_env \<Rightarrow> jsval \<Rightarrow> string" where
  "to_string env JUndef = ''undefined''"
| "to_string env JNull = ''null''"
| "to_string env (JBool b) = (if b then ''true'' else ''false'')"
| "to_string env (JNum n) = numToStr env n"
| "to_string env (JStr s) = s"
| "to_string env (JDate t) = dateToStr env t"

text \<open>The global \<open>isNaN(v)\<close> converts its argument to a number first.\<close>

definition is_NaN :: "js_env \<Rightarrow> jsval \<Rightarrow> bool" where
  "is_NaN env v = (to_number env v = NaN)"

text \<open>\<open>Date.parse(v)\<close> converts its argument to a string first.\<close>

definition date_parse :: "js_env \<Rightarrow> jsval \<Rightarrow> jsnum" where
  "date_parse env v = dateParse env (to_string env v)"

text \<open>\<open>TimeClip\<close>: a time value is an integral number of milliseconds of absolute
  value at most \<open>8.64e15\<close>, or \<open>NaN\<close>.\<close>

fun time_clip :: "jsnum \<Rightarrow> jsnum" where
  "time_clip (Fin a) =
     (if 8640000000000000 < \<bar>a\<bar> then NaN
      else Fin (of_int (if 0 \<le> a then \<lfloor>a\<rfloor> else \<lceil>a\<rceil>)))"
| "time_clip _ = NaN"

text \<open>\<open>new Date(v)\<close>: a string is parsed as by \<open>Date.parse\<close>, a \<open>Date\<close> is copied,
  every other value is converted to a number and clipped.\<close>

fun new_Date :: "js_env \<Rightarrow> jsval \<Rightarrow> jsval" where
  "new_Date env (JStr s) = JDate (dateParse env s)"
| "new_Date env (JDate t) = JDate t"
| "new_Date env v = JDate (time_clip (to_number env v))"

text \<open>
  The binary \<open>+\<close>: a \<open>Date\<close> operand is converted to its string; if an operand then
  is a string the result is the concatenation of the operands' strings, otherwise the sum
  of their numbers. The binary \<open>-\<close> converts both operands to numbers.
\<close>

fun to_primitive :: "js_env \<Rightarrow> jsval \<Rightarrow> jsval" where
  "to_primitive env (JDate t) = JStr (dateToStr env t)"
| "to_primitive env v = v"

fun is_JStr :: "jsval \<Rightarrow> bool" where
  "is_JStr (JStr s) = True"
| "is_JStr _ = False"

definition js_add :: "js_env \<Rightarrow> jsval \<Rightarrow> jsval \<Rightarrow> jsval" where
  "js_add env a b =
     (let pa = to_primitive env a; pb = to_primitive env b
      in if is_JStr pa \<or> is_JStr pb then JStr (to_string env pa @ to_string env pb)
         else JNum (js_plus (to_number env pa) (to_number env pb)))"

definition js_sub :: "js_env \<Rightarrow> jsval \<Rightarrow> jsval \<Rightarrow> jsnum" where
  "js_sub env a b = js_minus (to_number env a) (to_number env b)"

text \<open>Property read \<open>o[k]\<close> (\<open>undefined\<close> for an absent key) and \<open>Object.keys(o)\<close>.\<close>

definition get_prop :: "row \<Rightarrow> string \<Rightarrow> jsval" where
  "get_prop r k = (case map_of r k of None \<Rightarrow> JUndef | Some v \<Rightarrow> v)"

definition object_keys :: "'v obj \<Rightarrow> string list" where
  "object_keys r = map fst r"

text \<open>
  Property write \<open>o[k] = v\<close>. An existing key keeps its place. A new key goes to the end,
  unless it is an array index (the canonical decimal string of an integer from 0 to
  \<open>2^32 - 2\<close>): \<open>Object.keys\<close> lists those first, in ascending numeric order.
\<close>

definition is_digit :: "char \<Rightarrow> bool" where
  "is_digit c = (48 \<le> (of_char c :: nat) \<and> (of_char c :: nat) \<le> 57)"

definition digits_value :: "string \<Rightarrow> nat" where
  "digits_value s = foldl (\<lambda>acc c. 10 * acc + ((of_char c :: nat) - 48)) 0 s"

definition is_array_index :: "string \<Rightarrow> bool" where
  "is_array_index k =
     (k \<noteq> [] \<and> list_all is_digit k \<and> (hd k \<noteq> CHR ''0'' \<or> length k = 1)
      \<and> digits_value k \<le> 4294967294)"

fun insert_index :: "string \<Rightarrow> 'v \<Rightarrow> 'v obj \<Rightarrow> 'v obj" where
  "insert_index k v [] = [(k, v)]"
| "insert_index k v (p # ps) =
     (if is_array_index (fst p) \<and> digits_value (fst p) < digits_value k
      then p # insert_index k v ps
      else (k, v) # p # ps)"

definition set_prop :: "string \<Rightarrow> 'v \<Rightarrow> 'v obj \<Rightarrow> 'v obj" where
  "set_prop k v r =
     (if k \<notin> set (object_keys r) \<and> is_array_index k then insert_index k v r
      else AList.update k v r)"

subsection \<open>Strings\<close>

text \<open>\<open>toLowerCase\<close> on the code units below 256: the letters \<open>A\<close> to \<open>Z\<close> and the
  Latin-1 capitals (192 to 222 without the multiplication sign 215) move up by 32, which
  sets the bit of value 32 (clear in all of them).\<close>

fun lower_char :: "char \<Rightarrow> char" where
  "lower_char (Char b0 b1 b2 b3 b4 b5 b6 b7) =
     (let n = (of_char (Char b0 b1 b2 b3 b4 b5 b6 b7) :: nat)
      in if (65 \<le> n \<and> n \<le> 90) \<or> (192 \<le> n \<and> n \<le> 222 \<and> n \<noteq> 215)
         then Char b0 b1 b2 b3 b4 True b6 b7
         else Char b0 b1 b2 b3 b4 b5 b6 b7)"

definition toLowerCase :: "string \<Rightarrow> string" where
  "toLowerCase s = map lower_char s"

text \<open>\<open>s.includes(pat)\<close> and \<open>s.endsWith(suf)\<close>.\<close>

fun includesStr :: "string \<Rightarrow> string \<Rightarrow> bool" where
  "includesStr [] pat = (pat = [])"
| "includesStr (c # cs) pat = (take (length pat) (c # cs) = pat \<or> includesStr cs pat)"

definition endsWith :: "string \<Rightarrow> string \<Rightarrow> bool" where
  "endsWith s suf = (length suf \<le> length s \<and> drop (length s - length suf) s = suf)"

text \<open>\<open>s.trim()\<close> removes white space and line terminators from both ends; below 256
  these are the code units 9 to 13, 32 and 160.\<close>

definition is_space :: "char \<Rightarrow> bool" where
  "is_space c =
     (let n = (of_char c :: nat) in (9 \<le> n \<and> n \<le> 13) \<or> n = 32 \<or> n = 160)"

definition trim :: "string \<Rightarrow> string" where
  "trim s = rev (dropWhile is_space (rev (dropWhile is_space s)))"

text \<open>\<open>s.split(sep)\<close> for a string separator; \<open>acc\<close> holds the current piece,
  reversed. With the empty separator the string is split into its code units.\<close>

function split_from :: "string \<Rightarrow> string \<Rightarrow> string \<Rightarrow> string list" where
  "split_from sep acc [] = [rev acc]"
| "split_from sep acc (c # cs) =
     (if sep \<noteq> [] \<and> take (length sep) (c # cs) = sep
      then rev acc # split_from sep [] (drop (length sep) (c # cs))
      else split_from sep (c # acc) cs)"
  by pat_completeness auto
termination
  by (relation "measure (\<lambda>(sep, acc, s). length s)") auto

definition split :: "string \<Rightarrow> string \<Rightarrow> string list" where
  "split s sep = (if sep = [] then map (\<lambda>c. [c]) s else split_from sep [] s)"

subsection \<open>Statistics\<close>

text \<open>
  \<open>calculateMean\<close> and \<open>calculateStd\<close> are typed on \<open>number[]\<close> but are called with
  the cells of untyped rows, so they take values: the \<open>reduce\<close> of \<open>calculateMean\<close>
  adds with \<open>+\<close> from the number 0, and the division converts the sum to a number.
\<close>

definition calculateMean :: "js_env \<Rightarrow> jsval list \<Rightarrow> jsnum" where
  "calculateMean env values =
     (if values = [] then Fin 0
      else js_divide (to_number env (foldl (js_add env) (JNum (Fin 0)) values))
             (Fin (real (length values))))"

definition calculateStd :: "js_env \<Rightarrow> jsval list \<Rightarrow> jsnum" where
  "calculateStd env values =
     (if values = [] then Fin 0
      else (let mean = calculateMean env values;
                squareDiffs =
                  map (\<lambda>value. math_pow2 (js_minus (to_number env value) mean)) values
            in math_sqrt (calculateMean env (map JNum squareDiffs))))"

subsection \<open>Parsing and normalisation\<close>

text \<open>
  \<open>parseCSV\<close>. The separator of lines in the source is the string literal written
  with two backslashes, that is a backslash followed by the letter n. A thrown error is
  \<open>Inl\<close> of its message: \<open>lines[0].split\<close> throws when \<open>lines\<close> is empty.
\<close>

definition parseCSV :: "string \<Rightarrow> string + row list" where
  "parseCSV text =
     (case split text [CHR 0x5C, CHR ''n''] of
        [] \<Rightarrow> Inl ''TypeError''
      | line0 # rest \<Rightarrow>
          (let headers = map trim (split line0 '','')
           in Inr (map (\<lambda>line.
                     (let values = split line '',''
                      in foldl (\<lambda>obj (header, index).
                                  set_prop header
                                    (JStr (if index < length values then trim (values ! index)
                                           else []))
                                    obj)
                           [] (zip headers [0..<length headers])))
                   (filter (\<lambda>line. trim line \<noteq> []) rest))))"

text \<open>\<open>preprocessData\<close>: the normalisation pass. Each row is copied and the keys of the
  copy are visited in order.\<close>

definition preprocess_cell :: "js_env \<Rightarrow> row \<Rightarrow> string \<Rightarrow> row" where
  "preprocess_cell env processed key =
     (let value = get_prop processed key
      in if value = JStr [] \<or> value = JUndef \<or> value = JNull
         then set_prop key JNull processed
         else if \<not> is_NaN env value
         then set_prop key (JNum (to_number env value)) processed
         else if \<not> (date_parse env value = NaN)
         then set_prop key (new_Date env value) processed
         else processed)"

definition preprocessData :: "js_env \<Rightarrow> row list \<Rightarrow> row list" where
  "preprocessData env data =
     (if data = [] then []
      else map (\<lambda>row. foldl (preprocess_cell env) row (object_keys row)) data)"

text \<open>\<open>detectDataType\<close>; the result's \<open>dataType\<close> is \<open>None\<close> for \<open>null\<close>.\<close>

record DetectedType =
  dt_dataType :: "string option"
  dt_confidence :: jsnum

definition detectDataType :: "row list \<Rightarrow> DetectedType" where
  "detectDataType data =
     (case data of
        [] \<Rightarrow> \<lparr>dt_dataType = None, dt_confidence = Fin 0\<rparr>
      | row0 # _ \<Rightarrow>
          (let hasTimeVariable =
                 list_ex (\<lambda>key. includesStr (toLowerCase key) ''year''
                                \<or> includesStr (toLowerCase key) ''date''
                                \<or> includesStr (toLowerCase key) ''time'')
                   (object_keys row0);
               hasEntityVariable =
                 list_ex (\<lambda>key. includesStr (toLowerCase key) ''id''
                                \<or> includesStr (toLowerCase key) ''entity''
                                \<or> includesStr (toLowerCase key) ''firm''
                                \<or> includesStr (toLowerCase key) ''company''
                                \<or> includesStr (toLowerCase key) ''province''
                                \<or> includesStr (toLowerCase key) ''city'')
                   (object_keys row0)
           in if hasTimeVariable \<and> hasEntityVariable
              then \<lparr>dt_dataType = Some ''panel'', dt_confidence = Fin 0.9\<rparr>
              else if hasTimeVariable
              then \<lparr>dt_dataType = Some ''time_series'', dt_confidence = Fin 0.8\<rparr>
              else \<lparr>dt_dataType = Some ''cross_section'', dt_confidence = Fin 0.7\<rparr>))"

text \<open>\<open>analyzeVariables\<close>. The fields \<open>min\<close> and \<open>max\<close> of \<open>DataStats\<close> are
  \<open>minv\<close> and \<open>maxv\<close> here, \<open>name\<close> and \<open>type\<close> of \<open>VariableInfo\<close> are
  \<open>var_name\<close> and \<open>var_type\<close>.\<close>

record DataStats =
  count :: nat
  mean :: jsnum
  std :: jsnum
  minv :: jsnum
  maxv :: jsnum
  missing :: nat

datatype var_type = Numeric | Categorical | DateType | Dummy

record VariableInfo =
  var_name :: string
  var_type :: var_type
  stats :: DataStats

definition analyze_column :: "js_env \<Rightarrow> row list \<Rightarrow> string \<Rightarrow> VariableInfo" where
  "analyze_column env data column =
     (let values = filter (\<lambda>v. v \<noteq> JNull) (map (\<lambda>row. get_prop row column) data);
          numericValues =
            map (\<lambda>v. JNum (to_number env v)) (filter (\<lambda>v. \<not> is_NaN env v) values);
          type =
            (if length numericValues = length values
                \<and> list_all (\<lambda>v. v = JNum (Fin 0) \<or> v = JNum (Fin 1)) numericValues
             then Dummy
             else if js_greater
                       (js_divide (Fin (real (length numericValues)))
                          (Fin (real (length values))))
                       (Fin 0.8)
             then Numeric
             else if list_all (\<lambda>v. \<not> (date_parse env v = NaN)) values
             then DateType
             else Categorical);
          stats =
            \<lparr>count = length values,
             mean = (if type = Numeric \<or> type = Dummy
                     then calculateMean env numericValues else Fin 0),
             std = (if type = Numeric \<or> type = Dummy
                    then calculateStd env numericValues else Fin 0),
             minv = (if type = Numeric \<or> type = Dummy
                     then math_min (map (to_number env) numericValues) else Fin 0),
             maxv = (if type = Numeric \<or> type = Dummy
                     then math_max (map (to_number env) numericValues) else Fin 0),
             missing = length data - length values\<rparr>
      in \<lparr>var_name = column, var_type = type, stats = stats\<rparr>)"

definition analyzeVariables :: "js_env \<Rightarrow> row list \<Rightarrow> VariableInfo list" where
  "analyzeVariables env data =
     (case data of
        [] \<Rightarrow> []
      | row0 # _ \<Rightarrow> map (analyze_column env data) (object_keys row0))"

text \<open>
  \<open>parseFile\<close>. A \<open>File\<close> is its name, its MIME type and what reading it gives:
  \<open>None\<close> when the reader fires \<open>onerror\<close>, the content when it fires \<open>onload\<close>.
  The model returns the read the function requests together with the way the promise is
  settled: \<open>Inr\<close> the value it resolves with, \<open>Inl\<close> the error it rejects with.
  The fields \<open>variables\<close>, \<open>dataType\<close> and \<open>confidence\<close> of
  \<open>ProcessedData\<close> are \<open>pd_variables\<close>, \<open>pd_dataType\<close> and \<open>pd_confidence\<close>.
\<close>

record File =
  file_name :: string
  file_type :: string
  file_content :: "string option"

datatype read_request = ReadAsText | ReadAsArrayBuffer

datatype parse_error = FileReadFailed | FileParseFailed string

record ProcessedData =
  rawData :: "row list"
  pd_variables :: "VariableInfo list"
  pd_dataType :: "string option"
  pd_confidence :: jsnum

definition parseFile :: "js_env \<Rightarrow> File \<Rightarrow> read_request \<times> (parse_error + ProcessedData)" where
  "parseFile env file =
     (let request = (if endsWith (file_name file) ''.csv'' then ReadAsText
                     else ReadAsArrayBuffer)
      in (request,
          case file_content file of
            None \<Rightarrow> Inl FileReadFailed
          | Some result \<Rightarrow>
              (case (if endsWith (file_name file) ''.csv'' then parseCSV result
                     else if endsWith (file_name file) ''.xlsx''
                             \<or> endsWith (file_name file) ''.xls''
                     then xlsxSheetToJson env result
                     else Inr [])
               of Inl message \<Rightarrow> Inl (FileParseFailed message)
                | Inr data \<Rightarrow>
                    (let processedData = preprocessData env data;
                         dataType = detectDataType processedData;
                         variables = analyzeVariables env processedData
                     in Inr \<lparr>rawData = processedData, pd_variables = variables,
                             pd_dataType = dt_dataType dataType,
                             pd_confidence = dt_confidence dataType\<rparr>))))"

text \<open>
  The upload handler of the data-analysis editor, \<open>handleFileUpload\<close>, up to its first
  request: it returns \<open>false\<close> after an error message when the file's MIME type is not
  in \<open>allowedTypes\<close>, and only otherwise goes on to post the file.
\<close>

definition allowedTypes :: "string list" where
  "allowedTypes =
     [''application/vnd.ms-excel'',
      ''application/vnd.openxmlformats-officedocument.spreadsheetml.sheet'',
      ''text/csv'']"

definition handleFileUpload_rejects :: "File \<Rightarrow> bool" where
  "handleFileUpload_rejects file = (file_type file \<notin> set allowedTypes)"

subsection \<open>Preprocessing pipeline\<close>

text \<open>
  The pipeline shares row objects between arrays and writes to them, so rows live in a
  store: a reference is an index into the list of all row objects, a table is an array
  of references, and a new object goes to the end of the store. The arrays themselves
  are never written to after they are built, so they are plain lists. In a well-formed
  state every reference of a table is below the length of the store.
\<close>

type_synonym ref = nat
type_synonym heap = "row list"
type_synonym table = "ref list"

text \<open>An array read \<open>xs[i]\<close>: \<open>undefined\<close> out of range.\<close>

definition nth_js :: "jsval list \<Rightarrow> nat \<Rightarrow> jsval" where
  "nth_js xs i = (if i < length xs then xs ! i else JUndef)"

text \<open>
  The relational comparison \<open>a < b\<close> of two values: two strings are compared by their
  code units, every other pair as numbers.
\<close>

fun str_less :: "string \<Rightarrow> string \<Rightarrow> bool" where
  "str_less [] [] = False"
| "str_less [] (b # bs) = True"
| "str_less (a # as) [] = False"
| "str_less (a # as) (b # bs) =
     ((of_char a :: nat) < of_char b \<or> (a = b \<and> str_less as bs))"

fun js_less_val :: "js_env \<Rightarrow> jsval \<Rightarrow> jsval \<Rightarrow> bool" where
  "js_less_val env (JStr s) (JStr t) = str_less s t"
| "js_less_val env a b = js_less (to_number env a) (to_number env b)"

text \<open>
  \<open>[...values].sort((a, b) => a - b)\<close>. \<open>Array.prototype.sort\<close> puts the
  \<open>undefined\<close> elements last and orders the others by the comparator; it is stable.
  Where the comparator is not a consistent order (it returns \<open>NaN\<close> on some pair) the
  language leaves the result to the implementation; the model takes the result of a
  stable insertion sort that moves an element past those it compares greater than.
\<close>

fun sort_insert :: "js_env \<Rightarrow> jsval \<Rightarrow> jsval list \<Rightarrow> jsval list" where
  "sort_insert env x [] = [x]"
| "sort_insert env x (y # ys) =
     (if js_greater (js_sub env x y) (Fin 0) then y # sort_insert env x ys
      else x # y # ys)"

definition sort_numeric :: "js_env \<Rightarrow> jsval list \<Rightarrow> jsval list" where
  "sort_numeric env values =
     foldr (sort_insert env) (filter (\<lambda>v. v \<noteq> JUndef) values) []
     @ filter (\<lambda>v. v = JUndef) values"

text \<open>\<open>calculateMedian\<close>: for an odd length the result is the middle element itself.\<close>

definition calculateMedian :: "js_env \<Rightarrow> jsval list \<Rightarrow> jsval" where
  "calculateMedian env values =
     (if values = [] then JNum (Fin 0)
      else (let sorted = sort_numeric env values;
                middle = length sorted div 2
            in if length sorted mod 2 = 0
               then JNum (js_divide
                            (to_number env
                               (js_add env (nth_js sorted (middle - 1)) (nth_js sorted middle)))
                            (Fin 2))
               else nth_js sorted middle))"

definition detectOutliersZScore :: "js_env \<Rightarrow> jsval list \<Rightarrow> jsnum \<Rightarrow> nat list" where
  "detectOutliersZScore env values threshold =
     (let mean = calculateMean env values;
          std = calculateStd env values
      in map snd
           (filter (\<lambda>(value, index).
                      js_greater
                        (math_abs (js_divide (js_minus (to_number env value) mean) std))
                        threshold)
              (zip values [0..<length values])))"

text \<open>\<open>detectOutliersIQR\<close>. \<open>q1 - threshold * iqr\<close> is a number; \<open>q3 + threshold * iqr\<close>
  is formed with \<open>+\<close> and compared as a value.\<close>

definition detectOutliersIQR :: "js_env \<Rightarrow> jsval list \<Rightarrow> jsnum \<Rightarrow> nat list" where
  "detectOutliersIQR env values threshold =
     (let sorted = sort_numeric env values;
          q1 = nth_js sorted (nat \<lfloor>real (length sorted) * 0.25\<rfloor>);
          q3 = nth_js sorted (nat \<lfloor>real (length sorted) * 0.75\<rfloor>);
          iqr = js_sub env q3 q1;
          lowerBound = js_minus (to_number env q1) (js_times threshold iqr);
          upperBound = js_add env q3 (JNum (js_times threshold iqr))
      in map snd
           (filter (\<lambda>(value, index).
                      js_less_val env value (JNum lowerBound)
                      \<or> js_less_val env upperBound value)
              (zip values [0..<length values])))"

text \<open>
  \<open>PreprocessConfig\<close>. The methods are strings, as the stages compare them; the
  threshold of the missing-value stage is optional (\<open>None\<close> when absent). The fields
  \<open>method\<close> and \<open>threshold\<close> carry the prefix of their sub-configuration.
\<close>

record MissingValueConfig =
  mv_method :: string
  mv_threshold :: "jsnum option"

record OutlierConfig =
  ol_method :: string
  ol_threshold :: jsnum

record StandardizationConfig =
  sd_method :: string

record PreprocessConfig =
  missingValue :: MissingValueConfig
  outlier :: OutlierConfig
  standardization :: StandardizationConfig

text \<open>
  \<open>PreprocessSummary\<close>: each stage's summary is an object from column names to a
  pair of the method and the count, or of the method and the parameters.
\<close>

datatype std_params = MeanStd jsnum jsnum | MinMax jsnum jsnum

record PreprocessSummary =
  missingValues :: "(string \<times> nat) obj"
  outliers :: "(string \<times> nat) obj"
  standardizations :: "(string \<times> std_params) obj"

text \<open>\<open>config.threshold || 0.5\<close>: the default stands in for every falsy threshold,
  that is for an absent one, for 0 and for \<open>NaN\<close>.\<close>

definition threshold_or_default :: "MissingValueConfig \<Rightarrow> jsnum" where
  "threshold_or_default config =
     (case mv_threshold config of
        None \<Rightarrow> Fin 0.5
      | Some t \<Rightarrow> (if t = Fin 0 \<or> t = NaN then Fin 0.5 else t))"

text \<open>
  \<open>processedData.map(row => ...)\<close> of the mean and median cases: a row whose cell is
  \<open>null\<close> is replaced by a new object, a copy of the row with the cell set; the other
  rows stay. The result is the store, the new array and the count.
\<close>

fun fill_nulls :: "heap \<Rightarrow> table \<Rightarrow> string \<Rightarrow> jsval \<Rightarrow> heap \<times> table \<times> nat" where
  "fill_nulls h [] column v = (h, [], 0)"
| "fill_nulls h (a # rest) column v =
     (if get_prop (h ! a) column = JNull
      then (case fill_nulls (h @ [set_prop column v (h ! a)]) rest column v of
              (h', rest', n) \<Rightarrow> (h', length h # rest', n + 1))
      else (case fill_nulls h rest column v of
              (h', rest', n) \<Rightarrow> (h', a # rest', n)))"

text \<open>The body of the loop over the variables in \<open>handleMissingValues\<close>; the state is
  the store, \<open>processedData\<close> and \<open>summary\<close>.\<close>

definition missing_step ::
  "js_env \<Rightarrow> MissingValueConfig \<Rightarrow> heap \<times> table \<times> (string \<times> nat) obj \<Rightarrow> VariableInfo
   \<Rightarrow> heap \<times> table \<times> (string \<times> nat) obj" where
  "missing_step env config st variable =
     (case st of (h, processedData, summary) \<Rightarrow>
        if var_type variable \<noteq> Numeric then (h, processedData, summary)
        else
          (let missingCount =
                 length (filter (\<lambda>a. get_prop (h ! a) (var_name variable) = JNull)
                           processedData);
               missingRatio =
                 js_divide (Fin (real missingCount)) (Fin (real (length processedData)))
           in if js_greater missingRatio (threshold_or_default config)
              then (h, processedData,
                    set_prop (var_name variable) (''skip'', missingCount) summary)
              else if mv_method config = ''mean''
              then (let mean =
                          calculateMean env
                            (map (\<lambda>a. get_prop (h ! a) (var_name variable))
                               (filter (\<lambda>a. get_prop (h ! a) (var_name variable) \<noteq> JNull)
                                  processedData))
                    in case fill_nulls h processedData (var_name variable) (JNum mean) of
                         (h', processedData', n) \<Rightarrow>
                           (h', processedData',
                            set_prop (var_name variable) (''mean'', n) summary))
              else if mv_method config = ''median''
              then (let median =
                          calculateMedian env
                            (map (\<lambda>a. get_prop (h ! a) (var_name variable))
                               (filter (\<lambda>a. get_prop (h ! a) (var_name variable) \<noteq> JNull)
                                  processedData))
                    in case fill_nulls h processedData (var_name variable) median of
                         (h', processedData', n) \<Rightarrow>
                           (h', processedData',
                            set_prop (var_name variable) (''median'', n) summary))
              else if mv_method config = ''remove''
              then (let newData =
                          filter (\<lambda>a. get_prop (h ! a) (var_name variable) \<noteq> JNull)
                            processedData
                    in (h, newData,
                        set_prop (var_name variable)
                          (''remove'', length processedData - length newData) summary))
              else (h, processedData, summary)))"

definition handleMissingValues ::
  "js_env \<Rightarrow> heap \<Rightarrow> table \<Rightarrow> VariableInfo list \<Rightarrow> MissingValueConfig
   \<Rightarrow> heap \<times> table \<times> (string \<times> nat) obj" where
  "handleMissingValues env h data variables config =
     foldl (missing_step env config) (h, data, []) variables"

text \<open>
  \<open>handleOutliers\<close>. The inner loop writes \<open>processedData[index][variable.name]\<close>,
  which throws a \<open>TypeError\<close> if \<open>processedData[index]\<close> is \<open>undefined\<close>; a thrown
  error is \<open>Inl\<close> of its name.
\<close>

fun treat_outliers ::
  "js_env \<Rightarrow> OutlierConfig \<Rightarrow> table \<Rightarrow> string \<Rightarrow> jsval list \<Rightarrow> heap \<Rightarrow> nat list
   \<Rightarrow> string + heap" where
  "treat_outliers env config processedData column values h [] = Inr h"
| "treat_outliers env config processedData column values h (index # rest) =
     (let value = nth_js values index;
          mean = calculateMean env values;
          std = calculateStd env values;
          bound = (if js_greater (to_number env value) mean
                   then js_plus mean (js_times (ol_threshold config) std)
                   else js_minus mean (js_times (ol_threshold config) std))
      in if index < length processedData
         then treat_outliers env config processedData column values
                (h[processedData ! index :=
                     set_prop column (JNum bound) (h ! (processedData ! index))])
                rest
         else Inl ''TypeError'')"

definition outlier_step ::
  "js_env \<Rightarrow> OutlierConfig \<Rightarrow> table \<Rightarrow> heap \<times> (string \<times> nat) obj \<Rightarrow> VariableInfo
   \<Rightarrow> string + heap \<times> (string \<times> nat) obj" where
  "outlier_step env config data st variable =
     (case st of (h, summary) \<Rightarrow>
        if var_type variable = Numeric
        then (let values =
                    filter (\<lambda>v. v \<noteq> JNull)
                      (map (\<lambda>a. get_prop (h ! a) (var_name variable)) data);
                  outlierIndices =
                    (if ol_method config = ''zscore''
                     then detectOutliersZScore env values (ol_threshold config)
                     else if ol_method config = ''iqr''
                     then detectOutliersIQR env values (ol_threshold config)
                     else [])
              in case treat_outliers env config data (var_name variable) values h
                        outlierIndices of
                   Inl e \<Rightarrow> Inl e
                 | Inr h' \<Rightarrow>
                     Inr (h', set_prop (var_name variable)
                                (ol_method config, length outlierIndices) summary))
        else Inr (h, summary))"

fun outlier_loop ::
  "js_env \<Rightarrow> OutlierConfig \<Rightarrow> table \<Rightarrow> heap \<times> (string \<times> nat) obj \<Rightarrow> VariableInfo list
   \<Rightarrow> string + heap \<times> (string \<times> nat) obj" where
  "outlier_loop env config data st [] = Inr st"
| "outlier_loop env config data st (variable # rest) =
     (case outlier_step env config data st variable of
        Inl e \<Rightarrow> Inl e
      | Inr st' \<Rightarrow> outlier_loop env config data st' rest)"

definition handleOutliers ::
  "js_env \<Rightarrow> heap \<Rightarrow> table \<Rightarrow> VariableInfo list \<Rightarrow> OutlierConfig
   \<Rightarrow> string + heap \<times> table \<times> (string \<times> nat) obj" where
  "handleOutliers env h data variables config =
     (case outlier_loop env config data (h, []) variables of
        Inl e \<Rightarrow> Inl e
      | Inr (h', summary) \<Rightarrow> Inr (h', data, summary))"

text \<open>\<open>standardizeData\<close>: \<open>processedData.forEach(row => ...)\<close> writes into each row
  whose cell is not \<open>null\<close>.\<close>

definition zscore_row :: "js_env \<Rightarrow> string \<Rightarrow> jsnum \<Rightarrow> jsnum \<Rightarrow> heap \<Rightarrow> ref \<Rightarrow> heap" where
  "zscore_row env column m sd h a =
     (if get_prop (h ! a) column \<noteq> JNull
      then h[a := set_prop column
                    (JNum (js_divide (js_minus (to_number env (get_prop (h ! a) column)) m)
                             sd))
                    (h ! a)]
      else h)"

definition minmax_row :: "js_env \<Rightarrow> string \<Rightarrow> jsnum \<Rightarrow> jsnum \<Rightarrow> heap \<Rightarrow> ref \<Rightarrow> heap" where
  "minmax_row env column minimum maximum h a =
     (if get_prop (h ! a) column \<noteq> JNull
      then h[a := set_prop column
                    (JNum (js_divide
                             (js_minus (to_number env (get_prop (h ! a) column)) minimum)
                             (js_minus maximum minimum)))
                    (h ! a)]
      else h)"

definition standardize_step ::
  "js_env \<Rightarrow> StandardizationConfig \<Rightarrow> table \<Rightarrow> heap \<times> (string \<times> std_params) obj
   \<Rightarrow> VariableInfo \<Rightarrow> heap \<times> (string \<times> std_params) obj" where
  "standardize_step env config data st variable =
     (case st of (h, summary) \<Rightarrow>
        if var_type variable = Numeric
        then (let values =
                    filter (\<lambda>v. v \<noteq> JNull)
                      (map (\<lambda>a. get_prop (h ! a) (var_name variable)) data)
              in if sd_method config = ''zscore''
                 then (let mean = calculateMean env values;
                           std = calculateStd env values
                       in (foldl (zscore_row env (var_name variable) mean std) h data,
                           set_prop (var_name variable) (''zscore'', MeanStd mean std)
                             summary))
                 else if sd_method config = ''minmax''
                 then (let minimum = math_min (map (to_number env) values);
                           maximum = math_max (map (to_number env) values)
                       in (foldl (minmax_row env (var_name variable) minimum maximum) h data,
                           set_prop (var_name variable) (''minmax'', MinMax minimum maximum)
                             summary))
                 else (h, summary))
        else (h, summary))"

definition standardizeData ::
  "js_env \<Rightarrow> heap \<Rightarrow> table \<Rightarrow> VariableInfo list \<Rightarrow> StandardizationConfig
   \<Rightarrow> heap \<times> table \<times> (string \<times> std_params) obj" where
  "standardizeData env h data variables config =
     (case foldl (standardize_step env config data) (h, []) variables of
        (h', summary) \<Rightarrow> (h', data, summary))"

text \<open>\<open>preprocessDataAdvanced\<close>: the three stages in their fixed order. The result is
  the store after the call, the returned array and the summary.\<close>

definition preprocessDataAdvanced ::
  "js_env \<Rightarrow> heap \<Rightarrow> table \<Rightarrow> VariableInfo list \<Rightarrow> PreprocessConfig
   \<Rightarrow> string + heap \<times> table \<times> PreprocessSummary" where
  "preprocessDataAdvanced env h data variables config =
     (let summary = \<lparr>missingValues = [], outliers = [], standardizations = []\<rparr>;
          (h1, processedData1, summary1) =
            (if mv_method (missingValue config) \<noteq> ''none''
             then (case handleMissingValues env h data variables (missingValue config) of
                     (h', data', s) \<Rightarrow> (h', data', summary\<lparr>missingValues := s\<rparr>))
             else (h, data, summary))
      in case (if ol_method (outlier config) \<noteq> ''none''
               then (case handleOutliers env h1 processedData1 variables (outlier config) of
                       Inl e \<Rightarrow> Inl e
                     | Inr (h', data', s) \<Rightarrow> Inr (h', data', summary1\<lparr>outliers := s\<rparr>))
               else Inr (h1, processedData1, summary1))
         of Inl e \<Rightarrow> Inl e
          | Inr (h2, processedData2, summary2) \<Rightarrow>
              (if sd_method (standardization config) \<noteq> ''none''
               then (case standardizeData env h2 processedData2 variables
                            (standardization config) of
                       (h', data', s) \<Rightarrow>
                         Inr (h', data', summary2\<lparr>standardizations := s\<rparr>))
               else Inr (h2, processedData2, summary2)))"

subsection \<open>Notions used to state the properties\<close>

text \<open>
  What the normalisation pass does to one cell, read off the branches of
  \<open>preprocessData\<close>.
\<close>

definition normalize_value :: "js_env \<Rightarrow> jsval \<Rightarrow> jsval" where
  "normalize_value env value =
     (if value = JStr [] \<or> value = JUndef \<or> value = JNull then JNull
      else if \<not> is_NaN env value then JNum (to_number env value)
      else if \<not> (date_parse env value = NaN) then new_Date env value
      else value)"

text \<open>A valid date is a \<open>Date\<close> whose time value is a number; \<open>date_to_timestamp\<close>
  replaces a valid date by that number and leaves every other value as it is.\<close>

fun is_valid_date :: "jsval \<Rightarrow> bool" where
  "is_valid_date (JDate t) = (t \<noteq> NaN)"
| "is_valid_date _ = False"

fun date_to_timestamp :: "jsval \<Rightarrow> jsval" where
  "date_to_timestamp (JDate t) = (if t = NaN then JDate t else JNum t)"
| "date_to_timestamp v = v"






text \<open>
  The examples run in an environment that agrees with JavaScript on the strings they
  use: \<open>Number('5')\<close> is 5, no other string of the examples is a number, and
  \<open>Date.parse('2020-01-15')\<close> is 1579046400000 (midnight of that day, UTC), no other
  string of the examples is a date. The conversions to strings and the spreadsheet
  reader are not called by the examples.
\<close>

definition example_env :: js_env where
  "example_env =
     \<lparr>strToNum = (\<lambda>s. if s = ''5'' then Fin 5 else NaN),
      dateParse = (\<lambda>s. if s = ''2020-01-15'' then Fin 1579046400000 else NaN),
      numToStr = (\<lambda>n. []),
      dateToStr = (\<lambda>t. []),
      xlsxSheetToJson = (\<lambda>s. Inr [])\<rparr>"

section \<open>Properties\<close>

subsection \<open>Method recommender\<close>

text \<open>
  C5. For \<open>dataType = cross_section\<close> the recommender returns OLS (confidence 0.8)
  first, followed by 2SLS (confidence 0.85) exactly when \<open>hasInstrumental\<close> is true;
  for \<open>panel\<close> it returns the fixed-effects model (0.9) and then the random-effects
  model (0.85); for \<open>time_series\<close> the single time-series method (0.85); for every
  other \<open>dataType\<close> the empty list. The order is the order of the rules: OLS with
  the lower confidence stays in front of 2SLS.
\<close>

theorem recommendMethodsByDataStructure_rules:
  "recommendMethodsByDataStructure d =
     (if dataType d = ''panel''
      then [\<lparr>name = FixedEffects, confidence = Fin 0.9\<rparr>,
            \<lparr>name = RandomEffects, confidence = Fin 0.85\<rparr>]
      else if dataType d = ''cross_section''
      then (if hasInstrumental d
            then [\<lparr>name = OLS, confidence = Fin 0.8\<rparr>,
                  \<lparr>name = TwoSLS, confidence = Fin 0.85\<rparr>]
            else [\<lparr>name = OLS, confidence = Fin 0.8\<rparr>])
      else if dataType d = ''time_series''
      then [\<lparr>name = TimeSeriesAnalysis, confidence = Fin 0.85\<rparr>]
      else [])"
  by (simp add: recommendMethodsByDataStructure_def)

theorem recommendMethodsByDataStructure_rules_witness:
  "recommendMethodsByDataStructure
     \<lparr>dataType = ''cross_section'', hasInstrumental = True, hasMediator = False,
      hasModerator = False, hasGroupVariable = False, hasTimeVariable = False,
      hasEntityVariable = False, sampleSize = Fin 100\<rparr>
   = [\<lparr>name = OLS, confidence = Fin 0.8\<rparr>, \<lparr>name = TwoSLS, confidence = Fin 0.85\<rparr>]"
  using recommendMethodsByDataStructure_rules
    [of "\<lparr>dataType = ''cross_section'', hasInstrumental = True, hasMediator = False,
      hasModerator = False, hasGroupVariable = False, hasTimeVariable = False,
      hasEntityVariable = False, sampleSize = Fin 100\<rparr>"]
  by simp

subsection \<open>Objects\<close>

lemma get_prop_append_here:
  "k \<notin> set (map fst pre) \<Longrightarrow> get_prop (pre @ (k, v) # suf) k = v"
  by (induction pre) (auto simp: get_prop_def)

lemma update_append_here:
  "k \<notin> set (map fst pre) \<Longrightarrow> AList.update k w (pre @ (k, v) # suf) = pre @ (k, w) # suf"
  by (induction pre) auto

lemma set_prop_append_here:
  "k \<notin> set (map fst pre) \<Longrightarrow> set_prop k w (pre @ (k, v) # suf) = pre @ (k, w) # suf"
  by (simp add: set_prop_def object_keys_def update_append_here)

lemma object_keys_map_values [simp]:
  "object_keys (map (\<lambda>(k, v). (k, f k v)) r) = object_keys r"
  by (induction r) (auto simp: object_keys_def)

subsection \<open>Normalisation pass\<close>

lemma preprocess_cell_here:
  "k \<notin> set (map fst pre) \<Longrightarrow>
   preprocess_cell env (pre @ (k, v) # suf) k = pre @ (k, normalize_value env v) # suf"
  by (simp add: preprocess_cell_def normalize_value_def get_prop_append_here
      set_prop_append_here Let_def)

lemma preprocess_row_aux:
  "distinct (map fst (pre @ suf)) \<Longrightarrow>
   foldl (preprocess_cell env) (pre @ suf) (map fst suf)
   = pre @ map (\<lambda>(k, v). (k, normalize_value env v)) suf"
proof (induction suf arbitrary: pre)
  case Nil
  then show ?case by simp
next
  case (Cons p suf)
  obtain k v where p: "p = (k, v)" by (cases p)
  from Cons.prems have k: "k \<notin> set (map fst pre)" by (auto simp: p)
  have d: "distinct (map fst ((pre @ [(k, normalize_value env v)]) @ suf))"
    using Cons.prems by (auto simp: p)
  show ?case
    using Cons.IH[OF d] by (simp add: p preprocess_cell_here[OF k])
qed

lemma preprocess_row:
  "distinct (object_keys r) \<Longrightarrow>
   foldl (preprocess_cell env) r (object_keys r)
   = map (\<lambda>(k, v). (k, normalize_value env v)) r"
  using preprocess_row_aux[of "[]" r env] by (simp add: object_keys_def)

lemma preprocessData_map:
  "\<forall>r\<in>set data. distinct (object_keys r) \<Longrightarrow>
   preprocessData env data = map (map (\<lambda>(k, v). (k, normalize_value env v))) data"
  by (auto simp: preprocessData_def preprocess_row)

lemma preprocessData_keys:
  assumes "\<forall>r\<in>set data. distinct (object_keys r)"
  shows "\<forall>r\<in>set (preprocessData env data). distinct (object_keys r)"
  using assms by (auto simp: preprocessData_map[OF assms])

lemma normalize_value_twice:
  "normalize_value env (normalize_value env v) = date_to_timestamp (normalize_value env v)"
  by (cases v) (auto simp: normalize_value_def is_NaN_def date_parse_def split: if_splits)

lemma date_to_timestamp_twice:
  "date_to_timestamp (date_to_timestamp v) = date_to_timestamp v"
  by (cases v) auto

lemma date_to_timestamp_id: "\<not> is_valid_date v \<Longrightarrow> date_to_timestamp v = v"
  by (cases v) auto

lemma preprocessData_twice:
  assumes wf: "\<forall>r\<in>set data. distinct (object_keys r)"
  shows "preprocessData env (preprocessData env data)
         = map (map (\<lambda>(k, v). (k, date_to_timestamp v))) (preprocessData env data)"
proof -
  have "preprocessData env (preprocessData env data)
        = map (map (\<lambda>(k, v). (k, normalize_value env v))) (preprocessData env data)"
    by (rule preprocessData_map[OF preprocessData_keys[OF wf]])
  also have "\<dots> = map (map (\<lambda>(k, v). (k, date_to_timestamp v))) (preprocessData env data)"
    by (simp add: preprocessData_map[OF wf] normalize_value_twice case_prod_unfold)
  finally show ?thesis .
qed

text \<open>
  C1, as the code has it. On a table of well-formed rows a second run of
  \<open>preprocessData\<close> leaves every cell that the first run made \<open>null\<close>, a number or a
  string as it is, and turns every valid date into the number of its time value (numeric
  coercion comes before date coercion, and a \<open>Date\<close> converts to a number). So the
  second run changes nothing exactly when the first run produced no valid date, and from
  the second run on the table no longer changes.
\<close>

theorem preprocessData_second_run:
  assumes wf: "\<forall>r\<in>set data. distinct (object_keys r)"
  shows "preprocessData env (preprocessData env data)
           = map (map (\<lambda>(k, v). (k, date_to_timestamp v))) (preprocessData env data)
         \<and> (list_all (list_all (\<lambda>(k, v). \<not> is_valid_date v)) (preprocessData env data)
              \<longrightarrow> preprocessData env (preprocessData env data) = preprocessData env data)
         \<and> preprocessData env (preprocessData env (preprocessData env data))
             = preprocessData env (preprocessData env data)"
proof (intro conjI impI)
  show twice: "preprocessData env (preprocessData env data)
      = map (map (\<lambda>(k, v). (k, date_to_timestamp v))) (preprocessData env data)"
    by (rule preprocessData_twice[OF wf])
  show "preprocessData env (preprocessData env data) = preprocessData env data"
    if "list_all (list_all (\<lambda>(k, v). \<not> is_valid_date v)) (preprocessData env data)"
  proof -
    have "map (map (\<lambda>(k, v). (k, date_to_timestamp v))) (preprocessData env data)
          = map (map (\<lambda>p. p)) (preprocessData env data)"
      using that
      by (intro map_cong refl) (fastforce simp: list_all_iff intro: date_to_timestamp_id)
    then show ?thesis by (simp add: twice)
  qed
  have "preprocessData env (preprocessData env (preprocessData env data))
        = map (map (\<lambda>(k, v). (k, date_to_timestamp v)))
            (preprocessData env (preprocessData env data))"
    by (rule preprocessData_twice[OF preprocessData_keys[OF wf]])
  also have "\<dots> = preprocessData env (preprocessData env data)"
    by (simp add: twice date_to_timestamp_twice case_prod_unfold)
  finally show "preprocessData env (preprocessData env (preprocessData env data))
      = preprocessData env (preprocessData env data)" .
qed

theorem preprocessData_second_run_witness:
  "preprocessData example_env (preprocessData example_env
       [[(''d'', JStr ''2020-01-15''), (''x'', JStr ''5''), (''y'', JStr []),
         (''z'', JStr ''abc'')]])
     = [[(''d'', JNum (Fin 1579046400000)), (''x'', JNum (Fin 5)), (''y'', JNull),
         (''z'', JStr ''abc'')]]
   \<and> preprocessData example_env (preprocessData example_env
       [[(''x'', JStr ''5''), (''y'', JStr []), (''z'', JStr ''abc'')]])
     = preprocessData example_env [[(''x'', JStr ''5''), (''y'', JStr []), (''z'', JStr ''abc'')]]"
proof -
  have ev1: "preprocessData example_env
       [[(''d'', JStr ''2020-01-15''), (''x'', JStr ''5''), (''y'', JStr []),
         (''z'', JStr ''abc'')]]
     = [[(''d'', JDate (Fin 1579046400000)), (''x'', JNum (Fin 5)), (''y'', JNull),
         (''z'', JStr ''abc'')]]"
    by (simp add: preprocessData_def preprocess_cell_def example_env_def object_keys_def
        get_prop_def is_NaN_def date_parse_def set_prop_def)
  have ev2: "preprocessData example_env
       [[(''x'', JStr ''5''), (''y'', JStr []), (''z'', JStr ''abc'')]]
     = [[(''x'', JNum (Fin 5)), (''y'', JNull), (''z'', JStr ''abc'')]]"
    by (simp add: preprocessData_def preprocess_cell_def example_env_def object_keys_def
        get_prop_def is_NaN_def date_parse_def set_prop_def)
  show ?thesis
    using preprocessData_second_run
        [of "[[(''d'', JStr ''2020-01-15''), (''x'', JStr ''5''), (''y'', JStr []),
               (''z'', JStr ''abc'')]]" example_env]
      preprocessData_second_run
        [of "[[(''x'', JStr ''5''), (''y'', JStr []), (''z'', JStr ''abc'')]]" example_env]
    by (simp add: ev1 ev2 object_keys_def)
qed

text \<open>The parser gives a table with one date string for a file with the header
  \<open>d\<close> and the line \<open>2020-01-15\<close>.\<close>

lemma parseCSV_date_example:
  "parseCSV (''d'' @ [CHR 0x5C, CHR ''n''] @ ''2020-01-15'')
   = Inr [[(''d'', JStr ''2020-01-15'')]]"
  by (simp add: parseCSV_def split_def trim_def is_space_def set_prop_def object_keys_def
      is_array_index_def is_digit_def)

text \<open>
  C1 as stated fails: the table with the one cell \<open>'2020-01-15'\<close> in column \<open>d\<close>
  is normalised to a \<open>Date\<close>, and the second run turns the \<open>Date\<close> into the
  number 1579046400000.
\<close>

theorem preprocessData_idempotent_counterexample:
  "preprocessData example_env (preprocessData example_env [[(''d'', JStr ''2020-01-15'')]])
   \<noteq> preprocessData example_env [[(''d'', JStr ''2020-01-15'')]]"
  by (simp add: preprocessData_def preprocess_cell_def example_env_def object_keys_def
      get_prop_def is_NaN_def date_parse_def set_prop_def)


subsection \<open>Data-type detector\<close>







subsection \<open>Variable analyser\<close>

lemma analyze_column_name: "var_name (analyze_column env data column) = column"
  by (simp add: analyze_column_def Let_def)

lemma analyze_column_count_missing:
  "count (stats (analyze_column env data column))
   + missing (stats (analyze_column env data column)) = length data"
proof -
  have "length (filter (\<lambda>v. v \<noteq> JNull) (map (\<lambda>row. get_prop row column) data))
        \<le> length data"
    using length_filter_le[of "\<lambda>v. v \<noteq> JNull" "map (\<lambda>row. get_prop row column) data"]
    by simp
  then show ?thesis
    by (simp add: analyze_column_def Let_def)
qed

text \<open>
  C9. For a non-empty table \<open>analyzeVariables\<close> gives one \<open>VariableInfo\<close> per column
  of the first row, in order, and each of them has
  \<open>stats.count + stats.missing = data.length\<close>, whatever type the column was given.
\<close>

theorem analyzeVariables_count_missing:
  "data \<noteq> [] \<Longrightarrow>
   map var_name (analyzeVariables env data) = object_keys (hd data)
   \<and> list_all (\<lambda>v. count (stats v) + missing (stats v) = length data)
       (analyzeVariables env data)"
  by (cases data)
    (simp_all add: analyzeVariables_def list_all_iff analyze_column_count_missing
      analyze_column_name comp_def)

theorem analyzeVariables_count_missing_witness:
  "[[(''a'', JNum (Fin 0)), (''b'', JStr ''x'')], [(''a'', JNull), (''b'', JNull)],
    [(''a'', JNum (Fin 7)), (''b'', JNull)]] \<noteq> []
   \<and> map (\<lambda>v. (var_name v, count (stats v), missing (stats v)))
       (analyzeVariables example_env
          [[(''a'', JNum (Fin 0)), (''b'', JStr ''x'')], [(''a'', JNull), (''b'', JNull)],
           [(''a'', JNum (Fin 7)), (''b'', JNull)]])
     = [(''a'', 2, 1), (''b'', 1, 2)]"
proof -
  have ev: "map (\<lambda>v. (var_name v, count (stats v)))
       (analyzeVariables example_env
          [[(''a'', JNum (Fin 0)), (''b'', JStr ''x'')], [(''a'', JNull), (''b'', JNull)],
           [(''a'', JNum (Fin 7)), (''b'', JNull)]])
     = [(''a'', 2), (''b'', 1)]"
    by (simp add: analyzeVariables_def analyze_column_def object_keys_def get_prop_def Let_def)
  show ?thesis
    using ev analyzeVariables_count_missing
        [of "[[(''a'', JNum (Fin 0)), (''b'', JStr ''x'')], [(''a'', JNull), (''b'', JNull)],
              [(''a'', JNum (Fin 7)), (''b'', JNull)]]" example_env]
    by (simp add: analyzeVariables_def object_keys_def)
qed

lemma analyze_column_all_null:
  assumes "\<forall>row \<in> set data. get_prop row column = JNull"
  shows "analyze_column env data column
         = \<lparr>var_name = column, var_type = Dummy,
            stats = \<lparr>count = 0, mean = Fin 0, std = Fin 0, minv = PInf, maxv = NInf,
                     missing = length data\<rparr>\<rparr>"
proof -
  have "filter (\<lambda>v. v \<noteq> JNull) (map (\<lambda>row. get_prop row column) data) = []"
    using assms by (simp add: filter_empty_conv)
  then show ?thesis
    by (simp add: analyze_column_def calculateMean_def calculateStd_def math_min_def
        math_max_def)
qed

text \<open>
  C10. In a non-empty table, a column of the first row all of whose cells are \<open>null\<close>
  is given the type \<open>dummy\<close> and the statistics count 0, missing the number of rows,
  mean 0, std 0, min \<open>+Infinity\<close> and max \<open>-Infinity\<close>: that record is in the result,
  and every entry of the result with the column's name is that record.
\<close>

theorem analyzeVariables_all_null_column:
  assumes "data \<noteq> []"
    and "column \<in> set (object_keys (hd data))"
    and "\<forall>row \<in> set data. get_prop row column = JNull"
  shows "\<lparr>var_name = column, var_type = Dummy,
           stats = \<lparr>count = 0, mean = Fin 0, std = Fin 0, minv = PInf, maxv = NInf,
                    missing = length data\<rparr>\<rparr> \<in> set (analyzeVariables env data)
         \<and> (\<forall>v \<in> set (analyzeVariables env data).
               var_name v = column \<longrightarrow>
               v = \<lparr>var_name = column, var_type = Dummy,
                    stats = \<lparr>count = 0, mean = Fin 0, std = Fin 0, minv = PInf,
                             maxv = NInf, missing = length data\<rparr>\<rparr>)"
proof -
  obtain row0 rest where data: "data = row0 # rest"
    using assms(1) by (cases data) auto
  have res: "analyzeVariables env data = map (analyze_column env data) (object_keys row0)"
    by (simp add: analyzeVariables_def data)
  have col: "column \<in> set (object_keys row0)"
    using assms(2) by (simp add: data)
  show ?thesis
  proof (intro conjI ballI impI)
    show "\<lparr>var_name = column, var_type = Dummy,
           stats = \<lparr>count = 0, mean = Fin 0, std = Fin 0, minv = PInf, maxv = NInf,
                    missing = length data\<rparr>\<rparr> \<in> set (analyzeVariables env data)"
      using col analyze_column_all_null[OF assms(3), of env] by (force simp: res)
  next
    fix v
    assume v: "v \<in> set (analyzeVariables env data)" and n: "var_name v = column"
    from v obtain c where "v = analyze_column env data c"
      by (auto simp: res)
    with n have "v = analyze_column env data column"
      by (simp add: analyze_column_name)
    then show "v = \<lparr>var_name = column, var_type = Dummy,
                    stats = \<lparr>count = 0, mean = Fin 0, std = Fin 0, minv = PInf,
                             maxv = NInf, missing = length data\<rparr>\<rparr>"
      by (simp add: analyze_column_all_null[OF assms(3)])
  qed
qed

theorem analyzeVariables_all_null_column_witness:
  "list_all (\<lambda>row. get_prop row ''b'' = JNull)
     [[(''a'', JNum (Fin 0)), (''b'', JNull)], [(''a'', JNum (Fin 1)), (''b'', JNull)],
      [(''a'', JNull), (''b'', JNull)]]
   \<and> \<lparr>var_name = ''b'', var_type = Dummy,
       stats = \<lparr>count = 0, mean = Fin 0, std = Fin 0, minv = PInf, maxv = NInf,
                missing = 3\<rparr>\<rparr>
     \<in> set (analyzeVariables example_env
          [[(''a'', JNum (Fin 0)), (''b'', JNull)], [(''a'', JNum (Fin 1)), (''b'', JNull)],
           [(''a'', JNull), (''b'', JNull)]])"
  using analyzeVariables_all_null_column
      [of "[[(''a'', JNum (Fin 0)), (''b'', JNull)], [(''a'', JNum (Fin 1)), (''b'', JNull)],
            [(''a'', JNull), (''b'', JNull)]]" "''b''" example_env]
  by (simp add: object_keys_def get_prop_def numeral_3_eq_3)

subsection \<open>File parser\<close>

text \<open>
  C4 fails on \<open>parseFile\<close>. For a file whose name ends in none of \<open>.csv\<close>,
  \<open>.xlsx\<close> and \<open>.xls\<close> the function still asks the reader for the content (as an
  array buffer), and when the read succeeds it resolves, with the empty data set; it
  rejects only when the read itself fails.
\<close>

theorem parseFile_other_kind:
  assumes "\<not> endsWith (file_name file) ''.csv''"
    and "\<not> endsWith (file_name file) ''.xlsx''"
    and "\<not> endsWith (file_name file) ''.xls''"
  shows "parseFile env file =
           (ReadAsArrayBuffer,
            case file_content file of
              None \<Rightarrow> Inl FileReadFailed
            | Some result \<Rightarrow>
                Inr \<lparr>rawData = [], pd_variables = [], pd_dataType = None,
                     pd_confidence = Fin 0\<rparr>)"
  using assms
  by (simp add: parseFile_def preprocessData_def detectDataType_def analyzeVariables_def
      split: option.split)

theorem parseFile_other_kind_witness:
  "parseFile example_env
     \<lparr>file_name = ''notes.txt'', file_type = ''text/plain'', file_content = Some ''hello''\<rparr>
   = (ReadAsArrayBuffer,
      Inr \<lparr>rawData = [], pd_variables = [], pd_dataType = None, pd_confidence = Fin 0\<rparr>)"
  using parseFile_other_kind
      [of "\<lparr>file_name = ''notes.txt'', file_type = ''text/plain'',
            file_content = Some ''hello''\<rparr>" example_env]
  by (simp add: endsWith_def)

text \<open>The upload handler does turn the same file away before any request.\<close>

lemma handleFileUpload_rejects_text_plain:
  "handleFileUpload_rejects
     \<lparr>file_name = ''notes.txt'', file_type = ''text/plain'', file_content = Some ''hello''\<rparr>"
  by (simp add: handleFileUpload_rejects_def allowedTypes_def)


subsection \<open>Preprocessing pipeline: missing values\<close>


lemma map_of_insert_index:
  "k \<notin> fst ` set r \<Longrightarrow> map_of (insert_index k v r) = (map_of r)(k \<mapsto> v)"
proof (induction r)
  case Nil
  show ?case by simp
next
  case (Cons p ps)
  then have ne: "fst p \<noteq> k" and IH: "map_of (insert_index k v ps) = (map_of ps)(k \<mapsto> v)"
    by auto
  show ?case
    using ne by (cases p) (auto simp: IH fun_upd_twist)
qed

lemma map_of_set_prop: "map_of (set_prop k v r) = (map_of r)(k \<mapsto> v)"
  by (simp add: set_prop_def object_keys_def map_of_insert_index update_conv')

lemma get_prop_set_prop:
  "get_prop (set_prop k v r) k' = (if k' = k then v else get_prop r k')"
  by (simp add: get_prop_def map_of_set_prop)















lemma foldl_js_add_finite:
  "foldl (js_add env) (JNum (Fin a)) (map (\<lambda>r. JNum (Fin r)) xs) = JNum (Fin (a + sum_list xs))"
  by (induction xs arbitrary: a) (simp_all add: js_add_def add.assoc)

lemma calculateMean_finite:
  "xs \<noteq> [] \<Longrightarrow>
   calculateMean env (map (\<lambda>r. JNum (Fin r)) xs) = Fin (sum_list xs / real (length xs))"
  by (simp add: calculateMean_def foldl_js_add_finite)





subsection \<open>Preprocessing pipeline: standardisation and outliers\<close>


lemma calculateMean_1_3: "calculateMean env [JNum (Fin 1), JNum (Fin 3)] = Fin 2"
  by (simp add: calculateMean_def js_add_def)

lemma calculateStd_1_3: "calculateStd env [JNum (Fin 1), JNum (Fin 3)] = Fin 1"
  by (simp add: calculateStd_def calculateMean_1_3 js_minus_def)
    (simp add: calculateMean_def js_add_def)

text \<open>
  C3 fails. The caller's table is the array of the references 0 and 1, whose rows hold
  1 and 3 in column \<open>x\<close>. With standardisation by z-score (and the other two stages
  off) the call returns an array of the same two references, and the rows they refer to,
  the caller's rows, now hold -1 and 1: \<open>standardizeData\<close> copies the array and
  writes into the row objects.
\<close>

theorem preprocessDataAdvanced_writes_input_rows:
  "preprocessDataAdvanced example_env
     [[(''x'', JNum (Fin 1))], [(''x'', JNum (Fin 3))]] [0, 1]
     [\<lparr>var_name = ''x'', var_type = Numeric,
       stats = \<lparr>count = 2, mean = Fin 2, std = Fin 1, minv = Fin 1, maxv = Fin 3,
                missing = 0\<rparr>\<rparr>]
     \<lparr>missingValue = \<lparr>mv_method = ''none'', mv_threshold = Some (Fin (1 / 2))\<rparr>,
      outlier = \<lparr>ol_method = ''none'', ol_threshold = Fin 3\<rparr>,
      standardization = \<lparr>sd_method = ''zscore''\<rparr>\<rparr>
   = Inr ([[(''x'', JNum (Fin (- 1)))], [(''x'', JNum (Fin 1))]], [0, 1],
          \<lparr>missingValues = [], outliers = [],
           standardizations = [(''x'', ''zscore'', MeanStd (Fin 2) (Fin 1))]\<rparr>)"
  by (simp add: preprocessDataAdvanced_def standardizeData_def
      standardize_step_def get_prop_def calculateMean_1_3 calculateStd_1_3 zscore_row_def
      set_prop_def object_keys_def js_minus_def Let_def is_array_index_def is_digit_def)

lemma calculateMean_5_5: "calculateMean env [JNum (Fin 5), JNum (Fin 5)] = Fin 5"
  by (simp add: calculateMean_def js_add_def)

lemma calculateStd_5_5: "calculateStd env [JNum (Fin 5), JNum (Fin 5)] = Fin 0"
  by (simp add: calculateStd_def calculateMean_5_5 js_minus_def)
    (simp add: calculateMean_def js_add_def)

text \<open>A division by the number zero never gives a finite number, so never 0.\<close>

lemma js_divide_by_zero: "js_divide x (Fin 0) \<in> {NaN, PInf, NInf}"
  by (cases x) auto

text \<open>With the standard deviation 0 the z-score of a cell that is not \<open>null\<close> is
  \<open>NaN\<close> or an infinity, whatever the row holds.\<close>

lemma zscore_row_zero_std:
  "a < length h \<Longrightarrow> get_prop (h ! a) c \<noteq> JNull \<Longrightarrow>
   \<exists>n. get_prop (zscore_row env c m (Fin 0) h a ! a) c = JNum n \<and> n \<in> {NaN, PInf, NInf}"
  using js_divide_by_zero[of "js_minus (to_number env (get_prop (h ! a) c)) m"]
  by (simp add: zscore_row_def get_prop_set_prop)

text \<open>
  C2 fails. In the column \<open>[5, 5]\<close> all values coincide: mean 5, standard deviation
  0. Standardisation by z-score does not raise, but each cell becomes \<open>0 / 0\<close>, which
  is \<open>NaN\<close> and not the sentinel 0; the summary records the parameters 5 and 0.
\<close>

theorem standardizeData_zero_variance:
  "standardizeData example_env
     [[(''x'', JNum (Fin 5))], [(''x'', JNum (Fin 5))]] [0, 1]
     [\<lparr>var_name = ''x'', var_type = Numeric,
       stats = \<lparr>count = 2, mean = Fin 5, std = Fin 0, minv = Fin 5, maxv = Fin 5,
                missing = 0\<rparr>\<rparr>]
     \<lparr>sd_method = ''zscore''\<rparr>
   = ([[(''x'', JNum NaN)], [(''x'', JNum NaN)]], [0, 1],
      [(''x'', ''zscore'', MeanStd (Fin 5) (Fin 0))])"
  by (simp add: standardizeData_def
      standardize_step_def get_prop_def calculateMean_5_5 calculateStd_5_5 zscore_row_def
      set_prop_def object_keys_def js_minus_def Let_def is_array_index_def is_digit_def)



text \<open>The same through \<open>preprocessDataAdvanced\<close>, with the configuration the
  data-analysis editor starts from (mean, 0.5; z-score, 3; z-score).\<close>

lemma preprocessDataAdvanced_zero_variance:
  "preprocessDataAdvanced example_env
     [[(''x'', JNum (Fin 5))], [(''x'', JNum (Fin 5))]] [0, 1]
     [\<lparr>var_name = ''x'', var_type = Numeric,
       stats = \<lparr>count = 2, mean = Fin 5, std = Fin 0, minv = Fin 5, maxv = Fin 5,
                missing = 0\<rparr>\<rparr>]
     \<lparr>missingValue = \<lparr>mv_method = ''mean'', mv_threshold = Some (Fin (1 / 2))\<rparr>,
      outlier = \<lparr>ol_method = ''zscore'', ol_threshold = Fin 3\<rparr>,
      standardization = \<lparr>sd_method = ''zscore''\<rparr>\<rparr>
   = Inr ([[(''x'', JNum NaN)], [(''x'', JNum NaN)]], [0, 1],
          \<lparr>missingValues = [(''x'', ''mean'', 0)], outliers = [(''x'', ''zscore'', 0)],
           standardizations = [(''x'', ''zscore'', MeanStd (Fin 5) (Fin 0))]\<rparr>)"
  by (simp add: preprocessDataAdvanced_def handleMissingValues_def missing_step_def
      threshold_or_default_def js_greater_def handleOutliers_def outlier_step_def
      detectOutliersZScore_def standardizeData_def
      standardize_step_def get_prop_def calculateMean_5_5 calculateStd_5_5 zscore_row_def
      set_prop_def object_keys_def js_minus_def Let_def is_array_index_def is_digit_def)

lemma calculateMean_example:
  "calculateMean env [JNum (Fin 1), JNum (Fin 2), JNum (Fin 3), JNum (Fin 4), JNum (Fin 100)]
   = Fin 22"
  by (simp add: calculateMean_def js_add_def)

lemma calculateStd_example:
  "calculateStd env [JNum (Fin 1), JNum (Fin 2), JNum (Fin 3), JNum (Fin 4), JNum (Fin 100)]
   = Fin (sqrt 1522)"
  by (simp add: calculateStd_def calculateMean_example)
    (simp add: js_minus_def calculateMean_def js_add_def)

lemma sort_numeric_example:
  "sort_numeric env [JNum (Fin 1), JNum (Fin 2), JNum (Fin 3), JNum (Fin 4), JNum (Fin 100)]
   = [JNum (Fin 1), JNum (Fin 2), JNum (Fin 3), JNum (Fin 4), JNum (Fin 100)]"
  by (simp add: sort_numeric_def js_sub_def js_minus_def js_greater_def)

lemma detectOutliersIQR_example:
  "detectOutliersIQR env
     [JNum (Fin 1), JNum (Fin 2), JNum (Fin 3), JNum (Fin 4), JNum (Fin 100)] (Fin (3 / 2))
   = [4]"
  by (simp add: detectOutliersIQR_def sort_numeric_example)
    (simp add: nth_js_def js_sub_def js_minus_def js_add_def)

text \<open>The example of the specification, \<open>[1, 2, 3, 4, 100]\<close> with the IQR method and
  threshold 1.5: no cell is \<open>null\<close>, index 4 alone is detected, and the cell of row 4
  becomes mean + threshold * std.\<close>

lemma handleOutliers_example:
  "handleOutliers example_env
     [[(''x'', JNum (Fin 1))], [(''x'', JNum (Fin 2))], [(''x'', JNum (Fin 3))],
      [(''x'', JNum (Fin 4))], [(''x'', JNum (Fin 100))]]
     [0, 1, 2, 3, 4]
     [\<lparr>var_name = ''x'', var_type = Numeric,
       stats = \<lparr>count = 5, mean = Fin 22, std = Fin (sqrt 1522), minv = Fin 1,
                maxv = Fin 100, missing = 0\<rparr>\<rparr>]
     \<lparr>ol_method = ''iqr'', ol_threshold = Fin (3 / 2)\<rparr>
   = Inr ([[(''x'', JNum (Fin 1))], [(''x'', JNum (Fin 2))], [(''x'', JNum (Fin 3))],
           [(''x'', JNum (Fin 4))], [(''x'', JNum (Fin (22 + 3 / 2 * sqrt 1522)))]],
          [0, 1, 2, 3, 4], [(''x'', ''iqr'', 1)])"
  by (simp add: handleOutliers_def outlier_step_def get_prop_def Let_def
      detectOutliersIQR_example calculateMean_example calculateStd_example nth_js_def
      js_greater_def set_prop_def object_keys_def is_array_index_def is_digit_def)

text \<open>
  C7 fails when the column has a \<open>null\<close> cell before an outlier. In the column
  \<open>[null, 1, 2, 3, 4, 100]\<close> the outlier 100 is detected, at index 4 of the values
  that are not \<open>null\<close>; the stage uses that index as a row index and writes the bound
  into row 4, whose cell 4 is no outlier, while the cell 100 of row 5 stays.
\<close>

theorem handleOutliers_null_shifts_index:
  "handleOutliers example_env
     [[(''x'', JNull)], [(''x'', JNum (Fin 1))], [(''x'', JNum (Fin 2))],
      [(''x'', JNum (Fin 3))], [(''x'', JNum (Fin 4))], [(''x'', JNum (Fin 100))]]
     [0, 1, 2, 3, 4, 5]
     [\<lparr>var_name = ''x'', var_type = Numeric,
       stats = \<lparr>count = 5, mean = Fin 22, std = Fin (sqrt 1522), minv = Fin 1,
                maxv = Fin 100, missing = 1\<rparr>\<rparr>]
     \<lparr>ol_method = ''iqr'', ol_threshold = Fin (3 / 2)\<rparr>
   = Inr ([[(''x'', JNull)], [(''x'', JNum (Fin 1))], [(''x'', JNum (Fin 2))],
           [(''x'', JNum (Fin 3))], [(''x'', JNum (Fin (22 + 3 / 2 * sqrt 1522)))],
           [(''x'', JNum (Fin 100))]],
          [0, 1, 2, 3, 4, 5], [(''x'', ''iqr'', 1)])"
  by (simp add: handleOutliers_def outlier_step_def get_prop_def Let_def
      detectOutliersIQR_example calculateMean_example calculateStd_example nth_js_def
      js_greater_def set_prop_def object_keys_def is_array_index_def is_digit_def)

text \<open>The same through \<open>preprocessDataAdvanced\<close>, with the missing-value stage
  and the standardisation off.\<close>

lemma preprocessDataAdvanced_null_shifts_index:
  "preprocessDataAdvanced example_env
     [[(''x'', JNull)], [(''x'', JNum (Fin 1))], [(''x'', JNum (Fin 2))],
      [(''x'', JNum (Fin 3))], [(''x'', JNum (Fin 4))], [(''x'', JNum (Fin 100))]]
     [0, 1, 2, 3, 4, 5]
     [\<lparr>var_name = ''x'', var_type = Numeric,
       stats = \<lparr>count = 5, mean = Fin 22, std = Fin (sqrt 1522), minv = Fin 1,
                maxv = Fin 100, missing = 1\<rparr>\<rparr>]
     \<lparr>missingValue = \<lparr>mv_method = ''none'', mv_threshold = Some (Fin (1 / 2))\<rparr>,
      outlier = \<lparr>ol_method = ''iqr'', ol_threshold = Fin (3 / 2)\<rparr>,
      standardization = \<lparr>sd_method = ''none''\<rparr>\<rparr>
   = Inr ([[(''x'', JNull)], [(''x'', JNum (Fin 1))], [(''x'', JNum (Fin 2))],
           [(''x'', JNum (Fin 3))], [(''x'', JNum (Fin (22 + 3 / 2 * sqrt 1522)))],
           [(''x'', JNum (Fin 100))]],
          [0, 1, 2, 3, 4, 5],
          \<lparr>missingValues = [], outliers = [(''x'', ''iqr'', 1)], standardizations = []\<rparr>)"
  by (simp add: preprocessDataAdvanced_def handleOutliers_def outlier_step_def get_prop_def
      Let_def detectOutliersIQR_example calculateMean_example calculateStd_example nth_js_def
      js_greater_def set_prop_def object_keys_def is_array_index_def is_digit_def)

end
